theory Spec2Isabelle
  imports Complex_Main
begin

section \<open>Python values\<close>

text \<open>
  A Python \<open>str\<close> is a sequence of Unicode code points and \<open>len\<close> counts code points, so
  a string is a list of code points here. \<open>py\<close> turns an ASCII literal of the source into
  such a list.
\<close>

type_synonym pystr = "nat list"

definition py :: "string \<Rightarrow> pystr" where
  "py s = map of_char s"

definition LF :: nat where
  "LF = 10"

definition CR :: nat where
  "CR = 13"

text \<open>
  \<open>str.isspace\<close> of one code point: the white space table of CPython
  (\<open>_PyUnicode_IsWhitespace\<close>), which is what \<open>str.strip()\<close> without an argument removes.
\<close>

definition isspace :: "nat \<Rightarrow> bool" where
  "isspace c \<longleftrightarrow>
     (9 \<le> c \<and> c \<le> 13) \<or> (28 \<le> c \<and> c \<le> 32) \<or> c = 133 \<or> c = 160 \<or> c = 5760 \<or>
     (8192 \<le> c \<and> c \<le> 8202) \<or> c = 8232 \<or> c = 8233 \<or> c = 8239 \<or> c = 8287 \<or> c = 12288"

definition strip :: "pystr \<Rightarrow> pystr" where
  "strip s = rev (dropWhile isspace (rev (dropWhile isspace s)))"

text \<open>\<open>str(n)\<close> for an integer: its decimal digits, with a minus sign when negative.\<close>

fun digits :: "nat \<Rightarrow> pystr" where
  "digits n = (if n < 10 then [48 + n] else digits (n div 10) @ [48 + n mod 10])"

definition str_int :: "int \<Rightarrow> pystr" where
  "str_int i = (if i < 0 then 45 # digits (nat (- i)) else digits (nat i))"

section \<open>UTF-8\<close>

text \<open>
  The memory file is a sequence of bytes; the source opens it in text mode, so that what
  it writes is encoded and what it reads is decoded, in UTF-8 (the encoding of the
  persisted layout). A code point takes one to four bytes; \<open>encoded_size\<close> is the number
  of bytes of a string. The code points of a Python string are below \<open>0x110000\<close>, and
  the surrogates \<open>0xD800\<close> to \<open>0xDFFF\<close> among them have no encoding: writing a string
  that holds one raises \<open>UnicodeEncodeError\<close>.
\<close>

type_synonym bytes = "nat list"

definition utf8_len :: "nat \<Rightarrow> nat" where
  "utf8_len c = (if c < 128 then 1 else if c < 2048 then 2 else if c < 65536 then 3 else 4)"

definition encoded_size :: "pystr \<Rightarrow> nat" where
  "encoded_size s = sum_list (map utf8_len s)"

definition surrogate :: "nat \<Rightarrow> bool" where
  "surrogate c \<longleftrightarrow> 55296 \<le> c \<and> c \<le> 57343"

definition encodable_char :: "nat \<Rightarrow> bool" where
  "encodable_char c \<longleftrightarrow> c < 1114112 \<and> \<not> surrogate c"

definition encodable :: "pystr \<Rightarrow> bool" where
  "encodable s = list_all encodable_char s"

definition utf8_char :: "nat \<Rightarrow> bytes" where
  "utf8_char c =
     (if c < 128 then [c]
      else if c < 2048 then [192 + c div 64, 128 + c mod 64]
      else if c < 65536 then [224 + c div 4096, 128 + c div 64 mod 64, 128 + c mod 64]
      else [240 + c div 262144, 128 + c div 4096 mod 64, 128 + c div 64 mod 64, 128 + c mod 64])"

definition utf8 :: "pystr \<Rightarrow> bytes" where
  "utf8 s = concat (map utf8_char s)"

definition continuation :: "nat \<Rightarrow> bool" where
  "continuation b \<longleftrightarrow> 128 \<le> b \<and> b < 192"

text \<open>
  Decoding is strict: a byte sequence that is not the encoding of a string (a stray or
  missing continuation byte, an overlong form, a surrogate, a value past \<open>0x10FFFF\<close>)
  has no decoding, and reading it raises \<open>UnicodeDecodeError\<close>.
\<close>

fun utf8_decode :: "bytes \<Rightarrow> pystr option" where
  "utf8_decode [] = Some []"
| "utf8_decode (b # bs) =
     (if b < 128 then map_option ((#) b) (utf8_decode bs)
      else if 192 \<le> b \<and> b < 224 then
        (case bs of
           b1 # r \<Rightarrow>
             (let c = (b - 192) * 64 + (b1 - 128)
              in if continuation b1 \<and> 128 \<le> c
                 then map_option ((#) c) (utf8_decode r) else None)
         | _ \<Rightarrow> None)
      else if 224 \<le> b \<and> b < 240 then
        (case bs of
           b1 # b2 # r \<Rightarrow>
             (let c = (b - 224) * 4096 + (b1 - 128) * 64 + (b2 - 128)
              in if continuation b1 \<and> continuation b2 \<and> 2048 \<le> c \<and> \<not> surrogate c
                 then map_option ((#) c) (utf8_decode r) else None)
         | _ \<Rightarrow> None)
      else if 240 \<le> b \<and> b < 248 then
        (case bs of
           b1 # b2 # b3 # r \<Rightarrow>
             (let c = (b - 240) * 262144 + (b1 - 128) * 4096 + (b2 - 128) * 64 + (b3 - 128)
              in if continuation b1 \<and> continuation b2 \<and> continuation b3 \<and>
                    65536 \<le> c \<and> c < 1114112
                 then map_option ((#) c) (utf8_decode r) else None)
         | _ \<Rightarrow> None)
      else None)"

section \<open>Configuration\<close>

text \<open>
  The three integers \<open>app.py\<close> reads from the environment when the module is loaded.
  \<open>default_config\<close> holds the defaults of the source.
\<close>

record config =
  MAX_RULE_SIZE :: int
  RATE_LIMIT_REQUESTS :: int
  RATE_LIMIT_WINDOW :: int

definition default_config :: config where
  "default_config =
     \<lparr>MAX_RULE_SIZE = 10000, RATE_LIMIT_REQUESTS = 60, RATE_LIMIT_WINDOW = 60\<rparr>"

section \<open>Rate limiting\<close>

text \<open>
  \<open>rate_limit_store\<close> is a \<open>defaultdict(list)\<close> from the client address to the times
  of its admitted requests. Reading a key that is not there gives the empty list (and the
  source's first statement then stores the pruned list under the key). The clock
  \<open>time.time()\<close> is a parameter \<open>now\<close>; times are real numbers, that is, the subtraction
  \<open>now - t\<close> is taken to be exact.
\<close>

type_synonym rate_limit_store = "pystr \<rightharpoonup> real list"

definition timestamps :: "rate_limit_store \<Rightarrow> pystr \<Rightarrow> real list" where
  "timestamps store client_ip = (case store client_ip of None \<Rightarrow> [] | Some ts \<Rightarrow> ts)"

definition check_rate_limit ::
  "config \<Rightarrow> real \<Rightarrow> pystr \<Rightarrow> rate_limit_store \<Rightarrow> bool \<times> rate_limit_store" where
  "check_rate_limit cfg now client_ip store =
     (let pruned = filter (\<lambda>t. now - t < real_of_int (RATE_LIMIT_WINDOW cfg))
                     (timestamps store client_ip);
          store1 = store(client_ip \<mapsto> pruned)
      in if RATE_LIMIT_REQUESTS cfg \<le> int (length pruned) then (False, store1)
         else (True, store1(client_ip \<mapsto> pruned @ [now])))"

text \<open>
  A sequence of calls for one client, at the given clock readings, each on the store the
  previous one left: the answers in order, and the final store.
\<close>

fun check_all ::
  "config \<Rightarrow> pystr \<Rightarrow> real list \<Rightarrow> rate_limit_store \<Rightarrow> bool list \<times> rate_limit_store" where
  "check_all cfg client_ip [] store = ([], store)"
| "check_all cfg client_ip (now # nows) store =
     (let (r, store1) = check_rate_limit cfg now client_ip store;
          (rs, store2) = check_all cfg client_ip nows store1
      in (r # rs, store2))"

text \<open>
  The stores the running program can be in: the empty store of the module, and whatever
  a call of \<open>check_rate_limit\<close> leaves, for any client at any clock reading.
\<close>

inductive reachable :: "config \<Rightarrow> rate_limit_store \<Rightarrow> bool" for cfg :: config where
  reachable_init: "reachable cfg Map.empty"
| reachable_step:
    "reachable cfg store \<Longrightarrow> reachable cfg (snd (check_rate_limit cfg now client_ip store))"

text \<open>The limiter of the boundary property: three requests in sixty seconds.\<close>

definition limit3 :: config where
  "limit3 = \<lparr>MAX_RULE_SIZE = 10000, RATE_LIMIT_REQUESTS = 3, RATE_LIMIT_WINDOW = 60\<rparr>"

definition three_calls :: rate_limit_store where
  "three_calls = snd (check_all limit3 (py ''10.0.0.7'') [1000, 1000, 1000] Map.empty)"

section \<open>The memory file\<close>

text \<open>
  The file at \<open>FILE_PATH\<close> is either absent (\<open>None\<close>) or holds bytes (\<open>Some stored\<close>).
  The source opens it in Python's text mode with the default \<open>newline=None\<close>. On the
  systems that have \<open>fcntl\<close> a written string is encoded and stored as it is; on reading,
  the bytes are decoded and universal newlines translation turns every \<open>\r\n\<close> and every
  remaining \<open>\r\<close> into \<open>\n\<close> before the text reaches the caller. \<open>translate_newlines\<close>
  is that translation: its flag says that the previous code point was a carriage return,
  already delivered as a line feed.
\<close>

type_synonym memory_file = "bytes option"

definition exists_file :: "memory_file \<Rightarrow> bool" where
  "exists_file file \<longleftrightarrow> file \<noteq> None"

definition contents :: "memory_file \<Rightarrow> bytes" where
  "contents file = (case file of None \<Rightarrow> [] | Some stored \<Rightarrow> stored)"

fun translate_newlines :: "bool \<Rightarrow> pystr \<Rightarrow> pystr" where
  "translate_newlines pending_cr [] = []"
| "translate_newlines pending_cr (c # cs) =
     (if c = CR then LF # translate_newlines True cs
      else if c = LF \<and> pending_cr then translate_newlines False cs
      else c # translate_newlines False cs)"

definition universal_newlines :: "pystr \<Rightarrow> pystr" where
  "universal_newlines content = translate_newlines False content"

text \<open>
  What the source's \<open>except\<close> clauses tell apart: \<open>FileNotFoundError\<close>, and any other
  exception \<open>e\<close>, which carries the text \<open>str(e)\<close>.
\<close>

datatype exn = FileNotFoundError | OtherError pystr

text \<open>
  \<open>datetime.now().isoformat()\<close> is a text of ASCII digits and punctuation: a clock
  reading is a \<open>string\<close> here, which \<open>py\<close> turns into code points of one byte each.
\<close>

definition init_memory_file :: "string \<Rightarrow> memory_file \<Rightarrow> memory_file" where
  "init_memory_file now_iso file =
     (if \<not> exists_file file
      then Some (utf8 (py ''# Agent Memory\<newline>\<newline>'' @
                       py ''- System initialized on '' @ py now_iso @ py ''\<newline>''))
      else file)"

subsection \<open>Reading\<close>

text \<open>
  The \<open>try\<close> block of \<open>read_memory_file\<close>: \<open>open\<close>, \<open>flock\<close>, \<open>read\<close>, unlock. The
  parameter \<open>failure\<close> is the environment's part: \<open>Some e\<close> when one of these calls raises
  an exception other than \<open>FileNotFoundError\<close> (no permission, a lock that is refused),
  with \<open>e\<close> the exception's text. Without such a failure, \<open>open\<close> raises
  \<open>FileNotFoundError\<close> exactly when the file is absent, and \<open>read\<close> raises
  \<open>UnicodeDecodeError\<close> exactly when the stored bytes have no decoding; \<open>decode_error\<close>
  is the text of that exception.
\<close>

definition read_file :: "pystr option \<Rightarrow> pystr \<Rightarrow> memory_file \<Rightarrow> exn + pystr" where
  "read_file failure decode_error file =
     (case failure of
        Some e \<Rightarrow> Inl (OtherError e)
      | None \<Rightarrow>
          (case file of
             None \<Rightarrow> Inl FileNotFoundError
           | Some stored \<Rightarrow>
               (case utf8_decode stored of
                  None \<Rightarrow> Inl (OtherError decode_error)
                | Some content \<Rightarrow> Inr (universal_newlines content))))"

definition read_memory_file :: "pystr option \<Rightarrow> pystr \<Rightarrow> memory_file \<Rightarrow> pystr" where
  "read_memory_file failure decode_error file =
     (case read_file failure decode_error file of
        Inr content \<Rightarrow> content
      | Inl FileNotFoundError \<Rightarrow> py ''Error: Memory file not found.''
      | Inl (OtherError e) \<Rightarrow> py ''Error reading file: '' @ e)"

subsection \<open>Appending\<close>

text \<open>
  The \<open>with\<close> block of \<open>append_to_memory_file\<close> makes these calls in order: \<open>open\<close> in
  mode \<open>"a"\<close> (which creates an absent file and writes at the end of an existing one),
  \<open>flock(LOCK_EX)\<close>, \<open>write\<close> and \<open>flush\<close>, \<open>flock(LOCK_UN)\<close> in the \<open>finally\<close> clause, and
  the close at the end of the block. \<open>write\<close> encodes the whole string first and raises
  \<open>UnicodeEncodeError\<close>, before any byte is passed on, when the string has no encoding;
  \<open>encode_error\<close> is the text of that exception. Each call may also fail in the operating
  system; \<open>write_failure\<close> names the call that does, with the exception's text. A failing
  \<open>write\<close> or \<open>flush\<close> may have passed the first \<open>k\<close> bytes of the encoded string to the
  file already (\<open>k = 0\<close>: none), and these need not end where a character ends. An
  exception raised by the unlocking or the closing replaces the one that was under way.
\<close>

datatype write_failure =
    Open_fails pystr
  | Lock_fails pystr
  | Write_fails nat pystr
  | Unlock_fails pystr
  | Close_fails pystr

text \<open>The block's outcome: the text of the exception that leaves it, if any, and the file.\<close>

definition append_file ::
  "write_failure option \<Rightarrow> pystr \<Rightarrow> pystr \<Rightarrow> memory_file \<Rightarrow> pystr option \<times> memory_file" where
  "append_file failure encode_error data file =
     (case failure of
        Some (Open_fails e) \<Rightarrow> (Some e, file)
      | Some (Lock_fails e) \<Rightarrow> (Some e, Some (contents file))
      | Some (Write_fails k e) \<Rightarrow>
          (if encodable data then (Some e, Some (contents file @ take k (utf8 data)))
           else (Some encode_error, Some (contents file)))
      | Some (Unlock_fails e) \<Rightarrow>
          (if encodable data then (Some e, Some (contents file @ utf8 data))
           else (Some e, Some (contents file)))
      | Some (Close_fails e) \<Rightarrow>
          (if encodable data then (Some e, Some (contents file @ utf8 data))
           else (Some e, Some (contents file)))
      | None \<Rightarrow>
          (if encodable data then (None, Some (contents file @ utf8 data))
           else (Some encode_error, Some (contents file))))"

text \<open>
  \<open>timestamp\<close> is \<open>datetime.now().isoformat()\<close>, read from the server's clock. The calls
  of the loggers write to the audit log and to the application log only; they are left
  out, and with them the parameter \<open>client_ip\<close>, which nothing else uses.
\<close>

definition append_to_memory_file ::
  "config \<Rightarrow> string \<Rightarrow> write_failure option \<Rightarrow> pystr \<Rightarrow> pystr \<Rightarrow> memory_file
     \<Rightarrow> pystr \<times> memory_file" where
  "append_to_memory_file cfg timestamp failure encode_error rule file =
     (if rule = [] \<or> strip rule = [] then (py ''Error: Rule cannot be empty.'', file)
      else if MAX_RULE_SIZE cfg < int (length rule)
      then (py ''Error: Rule exceeds maximum size ('' @ str_int (MAX_RULE_SIZE cfg) @
            py '' bytes).'', file)
      else
        (let formatted_rule = py ''\<newline>- ['' @ py timestamp @ py ''] '' @ strip rule
         in case append_file failure encode_error formatted_rule file of
              (None, file') \<Rightarrow> (py ''Successfully added new rule.'', file')
            | (Some e, file') \<Rightarrow> (py ''Error writing to file: '' @ e, file')))"

text \<open>
  A sequence of calls, each with its clock reading, the environment's failure (if any)
  and its rule, each on the file the previous one left: the results in order, and the
  final file.
\<close>

fun append_all ::
  "config \<Rightarrow> pystr \<Rightarrow> (string \<times> write_failure option \<times> pystr) list \<Rightarrow> memory_file
     \<Rightarrow> pystr list \<times> memory_file" where
  "append_all cfg encode_error [] file = ([], file)"
| "append_all cfg encode_error ((timestamp, failure, rule) # calls) file =
     (let (r, file1) = append_to_memory_file cfg timestamp failure encode_error rule file;
          (rs, file2) = append_all cfg encode_error calls file1
      in (r # rs, file2))"

subsection \<open>The results, as the specification names them\<close>

definition success :: pystr where
  "success = py ''Successfully added new rule.''"

definition validation_error :: pystr where
  "validation_error = py ''Error: Rule cannot be empty.''"

definition size_limit_exceeded :: "config \<Rightarrow> pystr" where
  "size_limit_exceeded cfg =
     py ''Error: Rule exceeds maximum size ('' @ str_int (MAX_RULE_SIZE cfg) @ py '' bytes).''"

definition io_failure :: "pystr \<Rightarrow> pystr" where
  "io_failure e = py ''Error writing to file: '' @ e"

definition not_found :: pystr where
  "not_found = py ''Error: Memory file not found.''"

text \<open>
  The rendered entry in the specification's words: a newline, then \<open>- [\<close>, the timestamp,
  \<open>] \<close>, then the body without its leading and trailing white space.
\<close>

definition rendered_entry :: "string \<Rightarrow> pystr \<Rightarrow> pystr" where
  "rendered_entry timestamp body = [LF] @ py ''- ['' @ py timestamp @ py ''] '' @ strip body"

definition rendered_entries :: "(string \<times> write_failure option \<times> pystr) list \<Rightarrow> pystr" where
  "rendered_entries calls =
     concat (map (\<lambda>(timestamp, failure, body). rendered_entry timestamp body) calls)"

subsection \<open>Statistics\<close>

text \<open>
  The dictionary \<open>get_file_stats\<close> returns is an association list in the order of the
  source's literal. \<open>st_size\<close> is the number of bytes of the file. \<open>sum(1 for _ in f)\<close>
  decodes the file and counts the lines of the text as read: its line feeds, and one more
  for a last line that does not end in one. \<open>modified\<close> is the file's modification time
  in ISO format. \<open>failure\<close> and \<open>decode_error\<close> are as in \<open>read_file\<close>: \<open>os.stat\<close>,
  \<open>open\<close> or the reading raises an exception other than \<open>FileNotFoundError\<close>.
\<close>

datatype pyval = PyBool bool | PyInt int | PyStr pystr | PyNone

definition line_count :: "pystr \<Rightarrow> nat" where
  "line_count text = length (filter (\<lambda>c. c = LF) text) +
     (if text \<noteq> [] \<and> last text \<noteq> LF then 1 else 0)"

definition stat_file :: "pystr option \<Rightarrow> pystr \<Rightarrow> memory_file \<Rightarrow> exn + (nat \<times> nat)" where
  "stat_file failure decode_error file =
     (case failure of
        Some e \<Rightarrow> Inl (OtherError e)
      | None \<Rightarrow>
          (case file of
             None \<Rightarrow> Inl FileNotFoundError
           | Some stored \<Rightarrow>
               (case utf8_decode stored of
                  None \<Rightarrow> Inl (OtherError decode_error)
                | Some content \<Rightarrow>
                    Inr (length stored, line_count (universal_newlines content)))))"

definition get_file_stats ::
  "pystr option \<Rightarrow> pystr \<Rightarrow> pystr \<Rightarrow> memory_file \<Rightarrow> (string \<times> pyval) list" where
  "get_file_stats failure decode_error modified file =
     (case stat_file failure decode_error file of
        Inr (st_size, lines) \<Rightarrow>
          [(''exists'', PyBool True), (''size_bytes'', PyInt (int st_size)),
           (''line_count'', PyInt (int lines)), (''modified'', PyStr modified)]
      | Inl FileNotFoundError \<Rightarrow>
          [(''exists'', PyBool False), (''size_bytes'', PyInt 0),
           (''line_count'', PyInt 0), (''modified'', PyNone)]
      | Inl (OtherError e) \<Rightarrow> [(''exists'', PyBool False), (''error'', PyStr e)])"

subsection \<open>Example files and calls\<close>

text \<open>
  The text of the file as \<open>init_memory_file\<close> creates it and the file itself, and calls
  on it: two that succeed, and one whose rule has a carriage return between two letters.
\<close>

definition initial_text :: pystr where
  "initial_text =
     py ''# Agent Memory\<newline>\<newline>- System initialized on 2024-05-01T09:00:00.000001\<newline>''"

definition initial_file :: memory_file where
  "initial_file = init_memory_file ''2024-05-01T09:00:00.000001'' None"

definition tests_rule :: pystr where
  "tests_rule = py ''  Always run tests before committing '' @ [LF]"

definition cr_rule :: pystr where
  "cr_rule = py ''a'' @ [CR] @ py ''b''"

definition two_calls :: "(string \<times> write_failure option \<times> pystr) list" where
  "two_calls =
     [(''2024-05-01T12:00:00.000250'', None, tests_rule),
      (''2024-05-01T12:00:01.000500'', None, py ''x'')]"

definition cr_call :: "(string \<times> write_failure option \<times> pystr) list" where
  "cr_call = [(''2024-05-01T12:00:00.000250'', None, cr_rule)]"

text \<open>
  Texts of exceptions, a configuration with a small size limit, a rule of white space
  only, a rule that ends in an \<open>e\<close> with an acute accent (U+00E9, the two bytes 195 and
  169 in UTF-8), and a rule of 9999 letters \<open>a\<close> followed by that character.
\<close>

definition permission_denied :: pystr where
  "permission_denied = py ''[Errno 13] Permission denied''"

definition disk_full :: pystr where
  "disk_full = py ''[Errno 28] No space left on device''"

definition codec_error :: pystr where
  "codec_error = py ''codec error''"

definition small_limit :: config where
  "small_limit = \<lparr>MAX_RULE_SIZE = 5, RATE_LIMIT_REQUESTS = 60, RATE_LIMIT_WINDOW = 60\<rparr>"

definition blank_rule :: pystr where
  "blank_rule = py ''   '' @ [LF, 9] @ py '' ''"

definition cafe_rule :: pystr where
  "cafe_rule = py ''caf'' @ [233]"

definition accented_rule :: pystr where
  "accented_rule = replicate 9999 97 @ [233]"

section \<open>Properties of the rate limiter\<close>

lemma timestamps_upd [simp]:
  "timestamps (store(k \<mapsto> ts)) k' = (if k' = k then ts else timestamps store k')"
  by (simp add: timestamps_def)

lemma timestamps_empty [simp]: "timestamps Map.empty k = []"
  by (simp add: timestamps_def)

lemma check_rate_limit_timestamps:
  "timestamps (snd (check_rate_limit cfg now ip store)) ip =
     (let pruned = filter (\<lambda>t. now - t < real_of_int (RATE_LIMIT_WINDOW cfg))
                     (timestamps store ip)
      in if fst (check_rate_limit cfg now ip store) then pruned @ [now] else pruned)"
  by (simp add: check_rate_limit_def Let_def)

lemma check_rate_limit_other:
  "ip' \<noteq> ip \<Longrightarrow>
   timestamps (snd (check_rate_limit cfg now ip store)) ip' = timestamps store ip'"
  by (simp add: check_rate_limit_def Let_def)

lemma check_rate_limit_length:
  assumes "int (length (timestamps store k)) \<le> max 0 (RATE_LIMIT_REQUESTS cfg)"
  shows "int (length (timestamps (snd (check_rate_limit cfg now ip store)) k))
           \<le> max 0 (RATE_LIMIT_REQUESTS cfg)"
proof (cases "k = ip")
  case False
  then show ?thesis using assms by (simp add: check_rate_limit_other)
next
  case True
  define pruned where
    "pruned = filter (\<lambda>t. now - t < real_of_int (RATE_LIMIT_WINDOW cfg)) (timestamps store ip)"
  have old: "int (length (timestamps store ip)) \<le> max 0 (RATE_LIMIT_REQUESTS cfg)"
    using assms True by simp
  have "length pruned \<le> length (timestamps store ip)"
    unfolding pruned_def by (rule length_filter_le)
  then have le: "int (length pruned) \<le> max 0 (RATE_LIMIT_REQUESTS cfg)"
    using old by linarith
  have "timestamps (snd (check_rate_limit cfg now ip store)) ip = pruned \<or>
        (timestamps (snd (check_rate_limit cfg now ip store)) ip = pruned @ [now] \<and>
         int (length pruned) < RATE_LIMIT_REQUESTS cfg)"
    by (simp add: check_rate_limit_def Let_def pruned_def)
  then show ?thesis using le True by auto
qed

text \<open>
  In every reachable store, no client has more recorded times than the limit allows.
\<close>

lemma reachable_length:
  "reachable cfg store \<Longrightarrow>
   int (length (timestamps store k)) \<le> max 0 (RATE_LIMIT_REQUESTS cfg)"
proof (induction rule: reachable.induct)
  case reachable_init
  show ?case by simp
next
  case (reachable_step store now client_ip)
  from reachable_step.IH show ?case by (rule check_rate_limit_length)
qed

lemma check_rate_limit_set:
  "t \<in> set (timestamps (snd (check_rate_limit cfg now ip s)) ip) \<longleftrightarrow>
     (t \<in> set (timestamps s ip) \<and> now - t < real_of_int (RATE_LIMIT_WINDOW cfg)) \<or>
     (fst (check_rate_limit cfg now ip s) \<and> t = now)"
  by (auto simp: check_rate_limit_def Let_def)

lemma reachable_check_all:
  "reachable cfg store \<Longrightarrow> reachable cfg (snd (check_all cfg ip nows store))"
proof (induction nows arbitrary: store)
  case Nil
  then show ?case by simp
next
  case (Cons now nows)
  have "reachable cfg (snd (check_rate_limit cfg now ip store))"
    using Cons.prems by (rule reachable_step)
  then have "reachable cfg (snd (check_all cfg ip nows (snd (check_rate_limit cfg now ip store))))"
    by (rule Cons.IH)
  then show ?case by (simp add: split_beta Let_def)
qed

text \<open>
  A denied call stores the pruned list back and nothing else. When the client has no more
  recorded times than the limit, and the limit is at least one, a denial means that the
  pruning removed nothing: the store is as it was.
\<close>

lemma deny_unchanged:
  assumes lim: "1 \<le> RATE_LIMIT_REQUESTS cfg"
    and bound: "int (length (timestamps store ip)) \<le> RATE_LIMIT_REQUESTS cfg"
    and deny: "check_rate_limit cfg now ip store = (False, store')"
  shows "store' = store"
proof -
  define pruned where
    "pruned = filter (\<lambda>t. now - t < real_of_int (RATE_LIMIT_WINDOW cfg)) (timestamps store ip)"
  from deny have full: "RATE_LIMIT_REQUESTS cfg \<le> int (length pruned)"
    and s': "store' = store(ip \<mapsto> pruned)"
    by (auto simp: check_rate_limit_def Let_def pruned_def split: if_splits)
  have "length pruned \<le> length (timestamps store ip)"
    unfolding pruned_def by (rule length_filter_le)
  with full bound have len: "length pruned = length (timestamps store ip)" by linarith
  then have same: "pruned = timestamps store ip"
    unfolding pruned_def by (metis filter_True length_filter_less not_less_iff_gr_or_eq)
  from len full lim have "timestamps store ip \<noteq> []" by auto
  then have "store ip = Some (timestamps store ip)"
    by (auto simp: timestamps_def split: option.splits)
  with s' same show ?thesis by (simp add: map_upd_triv)
qed

subsection \<open>C4: the boundary of the rate limiter\<close>

text \<open>
  Claim C4. With a limit of 3 and a window of 60 seconds, for a client with no recorded
  times and a clock that stands at \<open>t0\<close>: the first three calls of \<open>check_rate_limit\<close>
  answer \<open>True\<close> and the fourth answers \<open>False\<close>; a call at any time \<open>t1\<close> at least 60
  seconds after \<open>t0\<close> answers \<open>True\<close> again, and the three old times are gone. The
  boundary is strict: after a call at time \<open>now\<close> the client's list holds a time \<open>t\<close>
  exactly when \<open>t\<close> was recorded before and \<open>now - t < 60\<close>, or the call was admitted and
  \<open>t\<close> is \<open>now\<close>; so a time whose age is exactly 60 is pruned.
\<close>

theorem rate_limit_boundary:
  assumes lim: "RATE_LIMIT_REQUESTS cfg = 3" and win: "RATE_LIMIT_WINDOW cfg = 60"
    and fresh: "timestamps store ip = []" and later: "t0 + 60 \<le> t1"
  shows "fst (check_all cfg ip [t0, t0, t0, t0] store) = [True, True, True, False] \<and>
         fst (check_all cfg ip [t0, t0, t0, t0, t1] store) = [True, True, True, False, True] \<and>
         timestamps (snd (check_all cfg ip [t0, t0, t0, t0, t1] store)) ip = [t1] \<and>
         (\<forall>s now t. t \<in> set (timestamps (snd (check_rate_limit cfg now ip s)) ip) \<longleftrightarrow>
            (t \<in> set (timestamps s ip) \<and> now - t < 60) \<or>
            (fst (check_rate_limit cfg now ip s) \<and> t = now))"
proof -
  have old: "\<not> t1 - t0 < 60" using later by simp
  have a: "fst (check_all cfg ip [t0, t0, t0, t0] store) = [True, True, True, False]"
    using lim win fresh by (simp add: check_rate_limit_def Let_def)
  have b: "fst (check_all cfg ip [t0, t0, t0, t0, t1] store) = [True, True, True, False, True]"
    using lim win fresh old by (simp add: check_rate_limit_def Let_def)
  have c: "timestamps (snd (check_all cfg ip [t0, t0, t0, t0, t1] store)) ip = [t1]"
    using lim win fresh old by (simp add: check_rate_limit_def Let_def)
  have d: "\<forall>s now t. t \<in> set (timestamps (snd (check_rate_limit cfg now ip s)) ip) \<longleftrightarrow>
            (t \<in> set (timestamps s ip) \<and> now - t < 60) \<or>
            (fst (check_rate_limit cfg now ip s) \<and> t = now)"
    using win by (simp add: check_rate_limit_set)
  from a b c d show ?thesis by blast
qed

theorem rate_limit_boundary_witness:
  "RATE_LIMIT_REQUESTS limit3 = 3 \<and> RATE_LIMIT_WINDOW limit3 = 60 \<and>
   timestamps Map.empty (py ''10.0.0.7'') = [] \<and> (1000::real) + 60 \<le> 1060 \<and>
   fst (check_all limit3 (py ''10.0.0.7'') [1000, 1000, 1000, 1000, 1060] Map.empty)
     = [True, True, True, False, True] \<and>
   timestamps (snd (check_all limit3 (py ''10.0.0.7'') [1000, 1000, 1000, 1000, 1060] Map.empty))
     (py ''10.0.0.7'') = [1060]"
proof -
  have h1: "RATE_LIMIT_REQUESTS limit3 = 3" by (simp add: limit3_def)
  have h2: "RATE_LIMIT_WINDOW limit3 = 60" by (simp add: limit3_def)
  have h3: "timestamps Map.empty (py ''10.0.0.7'') = []" by simp
  have h4: "(1000::real) + 60 \<le> 1060" by simp
  from rate_limit_boundary [OF h1 h2 h3 h4] h1 h2 h3 h4 show ?thesis by blast
qed

subsection \<open>C5: the window invariant\<close>

text \<open>
  Claim C5. After a call of \<open>check_rate_limit\<close> at time \<open>now\<close>, admitted or denied, on
  any store (so on every reachable one), every time recorded for the client is younger
  than the window, \<open>now - t < RATE_LIMIT_WINDOW\<close>, and after an admission the client has
  at most \<open>RATE_LIMIT_REQUESTS\<close> recorded times. The window is a positive duration.
\<close>

theorem rate_window_invariant:
  assumes win: "0 < RATE_LIMIT_WINDOW cfg"
    and call: "check_rate_limit cfg now ip store = (r, store')"
  shows "(\<forall>t \<in> set (timestamps store' ip). now - t < real_of_int (RATE_LIMIT_WINDOW cfg)) \<and>
         (r \<longrightarrow> int (length (timestamps store' ip)) \<le> RATE_LIMIT_REQUESTS cfg)"
proof -
  from call have s': "store' = snd (check_rate_limit cfg now ip store)"
    and r: "r = fst (check_rate_limit cfg now ip store)" by simp_all
  have "\<forall>t \<in> set (timestamps store' ip). now - t < real_of_int (RATE_LIMIT_WINDOW cfg)"
    unfolding s' using win by (auto simp: check_rate_limit_set)
  moreover have "r \<longrightarrow> int (length (timestamps store' ip)) \<le> RATE_LIMIT_REQUESTS cfg"
    unfolding s' r by (simp add: check_rate_limit_def Let_def)
  ultimately show ?thesis by blast
qed

theorem rate_window_invariant_witness:
  "0 < RATE_LIMIT_WINDOW limit3 \<and>
   check_rate_limit limit3 100 (py ''10.0.0.7'') [py ''10.0.0.7'' \<mapsto> [0, 50]]
     = (True, [py ''10.0.0.7'' \<mapsto> [50, 100]]) \<and>
   list_all (\<lambda>t. 100 - t < real_of_int (RATE_LIMIT_WINDOW limit3))
     (timestamps [py ''10.0.0.7'' \<mapsto> [50, 100]] (py ''10.0.0.7'')) \<and>
   int (length (timestamps [py ''10.0.0.7'' \<mapsto> [50, 100::real]] (py ''10.0.0.7'')))
     \<le> RATE_LIMIT_REQUESTS limit3"
proof -
  have win: "0 < RATE_LIMIT_WINDOW limit3" by (simp add: limit3_def)
  have call: "check_rate_limit limit3 100 (py ''10.0.0.7'') [py ''10.0.0.7'' \<mapsto> [0, 50]]
     = (True, [py ''10.0.0.7'' \<mapsto> [50, 100]])"
    by (simp add: check_rate_limit_def Let_def limit3_def)
  from rate_window_invariant [OF win call] win call show ?thesis
    by (simp add: list_all_iff)
qed


subsection \<open>C6: a denied call\<close>

text \<open>
  In a reachable store a client has no more recorded times than the limit allows, so
  when a call is denied the pruning has removed nothing.
\<close>

lemma deny_stores_same_sequence:
  assumes bound: "int (length (timestamps store ip)) \<le> max 0 (RATE_LIMIT_REQUESTS cfg)"
    and deny: "check_rate_limit cfg now ip store = (False, store')"
  shows "store' = store(ip \<mapsto> timestamps store ip)"
proof -
  define pruned where
    "pruned = filter (\<lambda>t. now - t < real_of_int (RATE_LIMIT_WINDOW cfg)) (timestamps store ip)"
  from deny have full: "RATE_LIMIT_REQUESTS cfg \<le> int (length pruned)"
    and s': "store' = store(ip \<mapsto> pruned)"
    by (auto simp: check_rate_limit_def Let_def pruned_def split: if_splits)
  have "length pruned \<le> length (timestamps store ip)"
    unfolding pruned_def by (rule length_filter_le)
  with full bound have "length pruned = length (timestamps store ip)" by linarith
  then have "pruned = timestamps store ip"
    unfolding pruned_def by (metis filter_True length_filter_less not_less_iff_gr_or_eq)
  with s' show ?thesis by simp
qed

text \<open>
  Claim C6. For every store the program can reach from the empty one, and every client:
  when \<open>check_rate_limit\<close> answers \<open>False\<close>, every client's recorded times are what
  they were before the call, so the denied attempt is not recorded and nothing is pruned;
  with a limit of at least one request the dictionary itself is the same. (With a limit
  below one every call is denied, and the only trace of a call is the empty list that the
  \<open>defaultdict\<close> holds for a client it had not seen.)
\<close>

theorem deny_leaves_store:
  assumes reach: "reachable cfg store"
    and deny: "check_rate_limit cfg now ip store = (False, store')"
  shows "(\<forall>k. timestamps store' k = timestamps store k) \<and>
         (1 \<le> RATE_LIMIT_REQUESTS cfg \<longrightarrow> store' = store)"
proof -
  from reach have bound: "int (length (timestamps store ip)) \<le> max 0 (RATE_LIMIT_REQUESTS cfg)"
    by (rule reachable_length)
  from bound deny have s': "store' = store(ip \<mapsto> timestamps store ip)"
    by (rule deny_stores_same_sequence)
  then have same: "\<forall>k. timestamps store' k = timestamps store k" by simp
  have "store' = store" if lim: "1 \<le> RATE_LIMIT_REQUESTS cfg"
  proof -
    from bound lim have "int (length (timestamps store ip)) \<le> RATE_LIMIT_REQUESTS cfg" by simp
    with lim show ?thesis using deny by (rule deny_unchanged)
  qed
  with same show ?thesis by blast
qed

theorem deny_leaves_store_witness:
  "reachable limit3 three_calls \<and>
   check_rate_limit limit3 1000 (py ''10.0.0.7'') three_calls = (False, three_calls)"
proof -
  have reach: "reachable limit3 three_calls"
    unfolding three_calls_def by (rule reachable_check_all) (rule reachable_init)
  have lim: "1 \<le> RATE_LIMIT_REQUESTS limit3" by (simp add: limit3_def)
  have no: "fst (check_rate_limit limit3 1000 (py ''10.0.0.7'') three_calls) = False"
    by (simp add: three_calls_def check_rate_limit_def Let_def limit3_def)
  then have call: "check_rate_limit limit3 1000 (py ''10.0.0.7'') three_calls =
      (False, snd (check_rate_limit limit3 1000 (py ''10.0.0.7'') three_calls))"
    by (simp add: prod_eq_iff)
  from deny_leaves_store [OF reach call] lim
  have "snd (check_rate_limit limit3 1000 (py ''10.0.0.7'') three_calls) = three_calls"
    by blast
  with call reach show ?thesis by simp
qed

section \<open>Properties of the encoding\<close>

lemma split3:
  fixes c :: nat
  shows "c = c div 4096 * 4096 + c div 64 mod 64 * 64 + c mod 64"
proof -
  have "c div 4096 = c div 64 div 64" by (simp add: div_mult2_eq)
  then have "c div 64 = c div 4096 * 64 + c div 64 mod 64" by simp
  moreover have "c = c div 64 * 64 + c mod 64" by simp
  ultimately show ?thesis by linarith
qed

lemma split4:
  fixes c :: nat
  shows "c = c div 262144 * 262144 + c div 4096 mod 64 * 4096 + c div 64 mod 64 * 64 + c mod 64"
proof -
  have "c div 262144 = c div 4096 div 64" by (simp add: div_mult2_eq)
  then have "c div 4096 = c div 262144 * 64 + c div 4096 mod 64" by simp
  with split3 [of c] show ?thesis by linarith
qed

lemma utf8_decode_char:
  assumes "encodable_char c"
  shows "utf8_decode (utf8_char c @ bs) = map_option ((#) c) (utf8_decode bs)"
proof -
  consider "c < 128" | "128 \<le> c" "c < 2048" | "2048 \<le> c" "c < 65536" | "65536 \<le> c"
    by linarith
  then show ?thesis
  proof cases
    case 1
    then show ?thesis by (simp add: utf8_char_def)
  next
    case 2
    define q r where "q = c div 64" and "r = c mod 64"
    have c: "c = q * 64 + r" and r: "r < 64" by (simp_all add: q_def r_def)
    from 2 c r have q: "2 \<le> q" "q < 32" by linarith+
    have "utf8_char c = [192 + q, 128 + r]"
      using 2 by (simp add: utf8_char_def q_def r_def)
    then show ?thesis using q r 2
      by (simp add: continuation_def Let_def c [symmetric])
  next
    case 3
    define q m r where "q = c div 4096" and "m = c div 64 mod 64" and "r = c mod 64"
    have c: "c = q * 4096 + m * 64 + r"
      unfolding q_def m_def r_def by (rule split3)
    have r: "r < 64" "m < 64" by (simp_all add: m_def r_def)
    from 3 c r have q: "q < 16" by linarith
    have "utf8_char c = [224 + q, 128 + m, 128 + r]"
      using 3 by (simp add: utf8_char_def q_def r_def m_def)
    then show ?thesis using q r 3 assms
      by (simp add: continuation_def Let_def c [symmetric] encodable_char_def)
  next
    case 4
    with assms have lt: "c < 1114112" by (simp add: encodable_char_def)
    define q n m r where "q = c div 262144" and "n = c div 4096 mod 64"
      and "m = c div 64 mod 64" and "r = c mod 64"
    have c: "c = q * 262144 + n * 4096 + m * 64 + r"
      unfolding q_def n_def m_def r_def by (rule split4)
    have r: "r < 64" "m < 64" "n < 64" by (simp_all add: m_def r_def n_def)
    from lt c r have q: "q < 8" by linarith
    have "utf8_char c = [240 + q, 128 + n, 128 + m, 128 + r]"
      using 4 by (simp add: utf8_char_def q_def r_def m_def n_def)
    then show ?thesis using q r 4 lt
      by (simp add: continuation_def Let_def c [symmetric])
  qed
qed

lemma utf8_decode_utf8:
  "encodable s \<Longrightarrow> utf8_decode (utf8 s @ bs) = map_option ((@) s) (utf8_decode bs)"
proof (induction s)
  case Nil
  show ?case by (simp add: utf8_def option.map_ident)
next
  case (Cons c s)
  then have c: "encodable_char c" and s: "encodable s" by (simp_all add: encodable_def)
  have "utf8_decode (utf8 (c # s) @ bs) = utf8_decode (utf8_char c @ (utf8 s @ bs))"
    by (simp add: utf8_def)
  also have "\<dots> = map_option ((#) c) (utf8_decode (utf8 s @ bs))"
    using c by (rule utf8_decode_char)
  also have "\<dots> = map_option ((@) (c # s)) (utf8_decode bs)"
    by (cases "utf8_decode bs") (simp_all add: Cons.IH [OF s])
  finally show ?case .
qed


lemma utf8_decode_append:
  "utf8_decode b0 = Some s0 \<Longrightarrow> utf8_decode (b0 @ b1) = map_option ((@) s0) (utf8_decode b1)"
proof (induction b0 arbitrary: s0 rule: utf8_decode.induct)
  case 1
  then show ?case by (simp add: option.map_ident)
next
  case (2 b bs)
  consider "b < 128" | "192 \<le> b" "b < 224" | "224 \<le> b" "b < 240" | "240 \<le> b" "b < 248"
    | "128 \<le> b" "b < 192" | "248 \<le> b"
    by linarith
  then show ?case
  proof cases
    case 1
    with "2.prems" obtain s where s: "utf8_decode bs = Some s" and s0: "s0 = b # s"
      by auto
    from "2.IH"(1) [OF 1 s] 1 s0 show ?thesis
      by (cases "utf8_decode b1") simp_all
  next
    case 2
    with "2.prems" obtain b1' r s where bs: "bs = b1' # r"
      and ok: "continuation b1'" "128 \<le> (b - 192) * 64 + (b1' - 128)"
      and s: "utf8_decode r = Some s" and s0: "s0 = ((b - 192) * 64 + (b1' - 128)) # s"
      by (auto simp: Let_def split: list.splits if_splits)
    have "utf8_decode (r @ b1) = map_option ((@) s) (utf8_decode b1)"
      using "2.IH"(2) [OF _ _ bs refl _ s] 2 ok by simp
    with 2 bs ok s0 show ?thesis
      by (cases "utf8_decode b1") (simp_all add: Let_def)
  next
    case 3
    with "2.prems" obtain b1' b2' r s where bs: "bs = b1' # b2' # r"
      and ok: "continuation b1'" "continuation b2'"
        "2048 \<le> (b - 224) * 4096 + (b1' - 128) * 64 + (b2' - 128)"
        "\<not> surrogate ((b - 224) * 4096 + (b1' - 128) * 64 + (b2' - 128))"
      and s: "utf8_decode r = Some s"
      and s0: "s0 = ((b - 224) * 4096 + (b1' - 128) * 64 + (b2' - 128)) # s"
      by (auto simp: Let_def split: list.splits if_splits)
    have "utf8_decode (r @ b1) = map_option ((@) s) (utf8_decode b1)"
      using "2.IH"(3) [OF _ _ _ bs refl refl _ s] 3 ok by simp
    with 3 bs ok s0 show ?thesis
      by (cases "utf8_decode b1") (simp_all add: Let_def)
  next
    case 4
    with "2.prems" obtain b1' b2' b3' r s where bs: "bs = b1' # b2' # b3' # r"
      and ok: "continuation b1'" "continuation b2'" "continuation b3'"
        "65536 \<le> (b - 240) * 262144 + (b1' - 128) * 4096 + (b2' - 128) * 64 + (b3' - 128)"
        "(b - 240) * 262144 + (b1' - 128) * 4096 + (b2' - 128) * 64 + (b3' - 128) < 1114112"
      and s: "utf8_decode r = Some s"
      and s0: "s0 = ((b - 240) * 262144 + (b1' - 128) * 4096 + (b2' - 128) * 64 + (b3' - 128)) # s"
      by (auto simp: Let_def split: list.splits if_splits)
    have "utf8_decode (r @ b1) = map_option ((@) s) (utf8_decode b1)"
      using "2.IH"(4) [OF _ _ _ _ bs refl refl refl _ s] 4 ok by simp
    with 4 bs ok s0 show ?thesis
      by (cases "utf8_decode b1") (simp_all add: Let_def)
  next
    case 5
    with "2.prems" show ?thesis by simp
  next
    case 6
    with "2.prems" show ?thesis by simp
  qed
qed



lemma utf8_Nil [simp]: "utf8 [] = []"
  by (simp add: utf8_def)

lemma utf8_append [simp]: "utf8 (s @ t) = utf8 s @ utf8 t"
  by (simp add: utf8_def)

lemma encodable_append [simp]: "encodable (s @ t) \<longleftrightarrow> encodable s \<and> encodable t"
  by (simp add: encodable_def)

lemma encodable_Cons [simp]: "encodable (c # s) \<longleftrightarrow> encodable_char c \<and> encodable s"
  by (simp add: encodable_def)

lemma encodable_Nil [simp]: "encodable []"
  by (simp add: encodable_def)

lemma encodable_py [simp]: "encodable (py s)"
proof -
  have "encodable_char (of_char c)" for c :: char
  proof -
    have "(of_char c :: nat) < 256" by (rule nat_of_char_less_256)
    then show ?thesis unfolding encodable_char_def surrogate_def by linarith
  qed
  then show ?thesis by (simp add: encodable_def py_def list_all_iff)
qed

lemma utf8_ascii: "\<forall>c \<in> set s. c < 128 \<Longrightarrow> utf8 s = s"
  by (induction s) (simp_all add: utf8_def utf8_char_def)

lemma length_utf8: "length (utf8 s) = encoded_size s"
  by (induction s) (simp_all add: utf8_def utf8_char_def encoded_size_def utf8_len_def)

lemma utf8_decode_encoded: "encodable s \<Longrightarrow> utf8_decode (utf8 s) = Some s"
  using utf8_decode_utf8 [of s "[]"] by simp

section \<open>Properties of the memory file\<close>

lemma formatted_rule_rendered:
  "py ''\<newline>- ['' @ py timestamp @ py ''] '' @ strip rule = rendered_entry timestamp rule"
  by (simp add: rendered_entry_def py_def LF_def)

lemma encodable_rendered_entry [simp]:
  "encodable (rendered_entry timestamp body) \<longleftrightarrow> encodable (strip body)"
proof -
  have "encodable_char LF"
    by (simp add: encodable_char_def surrogate_def LF_def)
  then show ?thesis by (simp add: rendered_entry_def)
qed

lemma strip_Nil [simp]: "strip [] = []"
  by (simp add: strip_def)

text \<open>
  The outcomes of \<open>append_to_memory_file\<close>, case by case, in the specification's names.
\<close>

lemma append_to_memory_file_cases:
  "append_to_memory_file cfg timestamp failure encode_error rule file =
     (if strip rule = [] then (validation_error, file)
      else if MAX_RULE_SIZE cfg < int (length rule) then (size_limit_exceeded cfg, file)
      else (case failure of
              None \<Rightarrow>
                (if encodable (strip rule)
                 then (success, Some (contents file @ utf8 (rendered_entry timestamp rule)))
                 else (io_failure encode_error, Some (contents file)))
            | Some (Open_fails e) \<Rightarrow> (io_failure e, file)
            | Some (Lock_fails e) \<Rightarrow> (io_failure e, Some (contents file))
            | Some (Write_fails k e) \<Rightarrow>
                (if encodable (strip rule)
                 then (io_failure e,
                       Some (contents file @ take k (utf8 (rendered_entry timestamp rule))))
                 else (io_failure encode_error, Some (contents file)))
            | Some (Unlock_fails e) \<Rightarrow>
                (if encodable (strip rule)
                 then (io_failure e, Some (contents file @ utf8 (rendered_entry timestamp rule)))
                 else (io_failure e, Some (contents file)))
            | Some (Close_fails e) \<Rightarrow>
                (if encodable (strip rule)
                 then (io_failure e, Some (contents file @ utf8 (rendered_entry timestamp rule)))
                 else (io_failure e, Some (contents file)))))"
proof -
  have enc: "encodable (py ''\<newline>- ['' @ py timestamp @ py ''] '' @ strip rule)
               \<longleftrightarrow> encodable (strip rule)"
    by simp
  show ?thesis
    unfolding append_to_memory_file_def append_file_def Let_def enc
      formatted_rule_rendered validation_error_def size_limit_exceeded_def success_def
      io_failure_def
    by (auto split: option.splits write_failure.splits)
qed

lemma results_distinct:
  "validation_error \<noteq> success" "size_limit_exceeded cfg \<noteq> success" "io_failure e \<noteq> success"
  "validation_error \<noteq> size_limit_exceeded cfg" "io_failure e \<noteq> validation_error"
  "io_failure e \<noteq> size_limit_exceeded cfg"
  by (simp_all add: validation_error_def size_limit_exceeded_def success_def io_failure_def py_def)

lemma append_success:
  assumes "append_to_memory_file cfg timestamp failure encode_error rule file = (success, file')"
  shows "file' = Some (contents file @ utf8 (rendered_entry timestamp rule)) \<and>
         encodable (rendered_entry timestamp rule)"
  using assms results_distinct
  by (auto simp: append_to_memory_file_cases split: if_splits option.splits write_failure.splits)

lemma translate_newlines_no_CR:
  "CR \<notin> set s \<Longrightarrow> translate_newlines False s = s"
  by (induction s) auto


lemma append_all_success:
  assumes "append_all cfg encode_error calls file = (results, file')"
    and "list_all (\<lambda>r. r = success) results"
  shows "contents file' = contents file @ utf8 (rendered_entries calls) \<and>
         encodable (rendered_entries calls) \<and>
         (exists_file file \<longrightarrow> exists_file file')"
  using assms
proof (induction calls arbitrary: "file" results file')
  case Nil
  then show ?case by (simp add: rendered_entries_def)
next
  case (Cons call calls)
  obtain timestamp failure rule where call: "call = (timestamp, failure, rule)"
    by (cases call)
  obtain r file1 where
    step: "append_to_memory_file cfg timestamp failure encode_error rule file = (r, file1)"
    by (cases "append_to_memory_file cfg timestamp failure encode_error rule file")
  obtain rs file2 where rest: "append_all cfg encode_error calls file1 = (rs, file2)"
    by (cases "append_all cfg encode_error calls file1")
  from Cons.prems(1) call step rest have res: "results = r # rs" and f2: "file' = file2"
    by simp_all
  from Cons.prems(2) res have r: "r = success" and rs: "list_all (\<lambda>r. r = success) rs"
    by simp_all
  from step r have f1: "file1 = Some (contents file @ utf8 (rendered_entry timestamp rule))"
    and e1: "encodable (rendered_entry timestamp rule)"
    using append_success by blast+
  from Cons.IH [OF rest rs] f1 e1 f2 call show ?case
    by (simp add: rendered_entries_def contents_def exists_file_def)
qed

lemma initial_file_eq: "initial_file = Some (utf8 initial_text)"
  by (simp add: initial_file_def init_memory_file_def exists_file_def initial_text_def py_def)

lemma initial_text_ascii: "utf8 initial_text = initial_text"
  by (rule utf8_ascii) (simp add: initial_text_def py_def)

lemma initial_text_encodable: "encodable initial_text"
  by (simp add: initial_text_def)

lemma initial_file_decoded: "utf8_decode (utf8 initial_text) = Some initial_text"
  using initial_text_encodable by (rule utf8_decode_encoded)

lemma strip_examples:
  "strip tests_rule = py ''Always run tests before committing''"
  "strip (py ''x'') = py ''x''"
  "strip cr_rule = cr_rule"
  "strip cafe_rule = cafe_rule"
  by (simp_all add: strip_def py_def LF_def CR_def isspace_def tests_rule_def cr_rule_def
        cafe_rule_def)

lemma length_examples:
  "length tests_rule = 38" "length (py ''x'') = 1" "length cr_rule = 3" "length cafe_rule = 4"
  "py ''x'' \<noteq> []" "cr_rule \<noteq> []" "cafe_rule \<noteq> []"
  "py ''Always run tests before committing'' \<noteq> []"
  by (simp_all add: py_def tests_rule_def cr_rule_def cafe_rule_def)

lemma encodable_examples:
  "encodable cr_rule" "encodable cafe_rule"
  by (simp_all add: cr_rule_def cafe_rule_def encodable_char_def surrogate_def CR_def)

lemma two_calls_entries:
  "initial_text @ rendered_entries two_calls =
     py ''# Agent Memory\<newline>\<newline>- System initialized on 2024-05-01T09:00:00.000001\<newline>\<newline>- [2024-05-01T12:00:00.000250] Always run tests before committing\<newline>- [2024-05-01T12:00:01.000500] x''"
  by (simp add: two_calls_def rendered_entries_def rendered_entry_def strip_examples
        initial_text_def)
     (simp add: py_def LF_def)

lemma two_calls_run:
  "append_all default_config encode_error two_calls initial_file =
     ([success, success], Some (utf8 (initial_text @ rendered_entries two_calls)))"
  by (simp add: two_calls_def initial_file_eq append_to_memory_file_cases strip_examples
        length_examples default_config_def contents_def rendered_entries_def)

subsection \<open>C1: appending only, and reading back\<close>

text \<open>
  Claim C1 says that after successful appends \<open>read_memory_file\<close> returns exactly the
  initial content followed by the rendered entries. The file is read in text mode, so
  a carriage return that a rule carries between two other characters is stored as it is
  and read back as a line feed: \<open>initial_file\<close> reads as \<open>initial_text\<close>, and after the
  successful call \<open>cr_call\<close> the value read differs from \<open>initial_text\<close> followed by the
  rendered entry.
\<close>

theorem read_translates_counterexample:
  "read_memory_file None codec_error initial_file = initial_text \<and>
   fst (append_all default_config codec_error cr_call initial_file) = [success] \<and>
   read_memory_file None codec_error (snd (append_all default_config codec_error cr_call initial_file))
     \<noteq> initial_text @ rendered_entries cr_call"
proof -
  have "CR \<notin> set initial_text" by (simp add: initial_text_def py_def CR_def)
  then have "universal_newlines initial_text = initial_text"
    unfolding universal_newlines_def by (rule translate_newlines_no_CR)
  then have first: "read_memory_file None codec_error initial_file = initial_text"
    by (simp add: read_memory_file_def read_file_def initial_file_eq initial_file_decoded)
  have run: "append_all default_config codec_error cr_call initial_file =
      ([success], Some (utf8 (initial_text @ rendered_entries cr_call)))"
    by (simp add: cr_call_def append_to_memory_file_cases strip_examples length_examples
          encodable_examples default_config_def rendered_entries_def initial_file_eq
          contents_def)
  have enc: "encodable (initial_text @ rendered_entries cr_call)"
    by (simp add: initial_text_encodable cr_call_def rendered_entries_def strip_examples
          encodable_examples)
  have "universal_newlines (initial_text @ rendered_entries cr_call)
          \<noteq> initial_text @ rendered_entries cr_call"
    by (simp add: universal_newlines_def initial_text_def cr_call_def rendered_entries_def
          rendered_entry_def strip_examples)
       (simp add: py_def LF_def CR_def cr_rule_def)
  then have "read_memory_file None codec_error (Some (utf8 (initial_text @ rendered_entries cr_call)))
          \<noteq> initial_text @ rendered_entries cr_call"
    using utf8_decode_encoded [OF enc]
    by (simp add: read_memory_file_def read_file_def del: utf8_append)
  with run first show ?thesis by simp
qed

text \<open>
  Claim C1, amended. For every sequence of successful calls of \<open>append_to_memory_file\<close>
  on a file that holds the bytes \<open>stored\<close>: the file then holds exactly \<open>stored\<close>
  followed by the encoded rendered entries in the order of the calls, each a newline,
  \<open>- [\<close>, the timestamp, \<open>] \<close> and the stripped body (so nothing that was in the file is
  altered or deleted); and when the file held the text \<open>initial\<close> before,
  \<open>read_memory_file\<close> returns \<open>initial\<close> followed by the rendered entries with universal
  newlines applied, and returns exactly that text when it has no carriage return in it.
\<close>

theorem append_only_read:
  assumes run: "append_all cfg encode_error calls (Some stored) = (results, file)"
    and ok: "\<forall>r \<in> set results. r = success"
  shows "file = Some (stored @ utf8 (rendered_entries calls)) \<and>
         (\<forall>initial. utf8_decode stored = Some initial \<longrightarrow>
            read_memory_file None decode_error file =
              universal_newlines (initial @ rendered_entries calls) \<and>
            (CR \<notin> set (initial @ rendered_entries calls) \<longrightarrow>
               read_memory_file None decode_error file = initial @ rendered_entries calls))"
proof -
  from ok have "list_all (\<lambda>r. r = success) results" by (simp add: list_all_iff)
  from append_all_success [OF run this]
  have stored: "file = Some (stored @ utf8 (rendered_entries calls))"
    and enc: "encodable (rendered_entries calls)"
    by (auto simp: contents_def exists_file_def split: option.splits)
  have "read_memory_file None decode_error file =
          universal_newlines (initial @ rendered_entries calls) \<and>
        (CR \<notin> set (initial @ rendered_entries calls) \<longrightarrow>
           read_memory_file None decode_error file = initial @ rendered_entries calls)"
    if init: "utf8_decode stored = Some initial" for initial
  proof -
    have "utf8_decode (stored @ utf8 (rendered_entries calls)) =
            Some (initial @ rendered_entries calls)"
      using utf8_decode_append [OF init] enc by (simp add: utf8_decode_encoded)
    then have rd: "read_memory_file None decode_error file =
        universal_newlines (initial @ rendered_entries calls)"
      by (simp add: stored read_memory_file_def read_file_def)
    have "CR \<notin> set (initial @ rendered_entries calls) \<longrightarrow>
            universal_newlines (initial @ rendered_entries calls) =
              initial @ rendered_entries calls"
      unfolding universal_newlines_def using translate_newlines_no_CR by blast
    with rd show ?thesis by simp
  qed
  with stored show ?thesis by blast
qed

theorem append_only_read_witness:
  "fst (append_all default_config codec_error two_calls initial_file) = [success, success] \<and>
   utf8_decode (contents initial_file) = Some initial_text \<and>
   read_memory_file None codec_error (snd (append_all default_config codec_error two_calls initial_file)) =
     py ''# Agent Memory\<newline>\<newline>- System initialized on 2024-05-01T09:00:00.000001\<newline>\<newline>- [2024-05-01T12:00:00.000250] Always run tests before committing\<newline>- [2024-05-01T12:00:01.000500] x''"
proof -
  let ?final = "py ''# Agent Memory\<newline>\<newline>- System initialized on 2024-05-01T09:00:00.000001\<newline>\<newline>- [2024-05-01T12:00:00.000250] Always run tests before committing\<newline>- [2024-05-01T12:00:01.000500] x''"
  have run: "append_all default_config codec_error two_calls (Some (utf8 initial_text)) =
      ([success, success], Some (utf8 (initial_text @ rendered_entries two_calls)))"
    using two_calls_run [of codec_error] by (simp add: initial_file_eq)
  have ok: "\<forall>r \<in> set [success, success]. r = success" by simp
  have init: "utf8_decode (utf8 initial_text) = Some initial_text"
    by (rule initial_file_decoded)
  have no_cr: "CR \<notin> set ?final" by (simp add: py_def CR_def)
  have "CR \<notin> set ?final \<longrightarrow>
          read_memory_file None codec_error (Some (utf8 (initial_text @ rendered_entries two_calls)))
            = ?final"
    using append_only_read [OF run ok, of codec_error] init
    unfolding two_calls_entries [symmetric] by blast
  with no_cr have "read_memory_file None codec_error
      (Some (utf8 (initial_text @ rendered_entries two_calls))) = ?final"
    by blast
  with two_calls_run [of codec_error] init show ?thesis
    by (simp add: initial_file_eq contents_def)
qed


subsection \<open>C3: the size limit\<close>

text \<open>
  The source compares \<open>len(rule)\<close>, the number of code points of the raw rule, with
  \<open>MAX_RULE_SIZE\<close>. A code point takes at least one byte, so a rule whose encoded size is
  the maximum passes the check; a rule of ASCII characters only whose encoded size is one
  more is rejected.
\<close>

lemma strip_unchanged:
  assumes "s \<noteq> []" and "\<not> isspace (hd s)" and "\<not> isspace (last s)"
  shows "strip s = s"
proof -
  from assms(2) have "dropWhile isspace s = s"
    by (simp add: dropWhile_eq_self_iff)
  moreover from assms(1,3) have "dropWhile isspace (rev s) = rev s"
    by (simp add: dropWhile_eq_self_iff hd_rev)
  ultimately show ?thesis by (simp add: strip_def)
qed

lemma length_le_encoded_size: "length s \<le> encoded_size s"
  by (induction s) (auto simp: encoded_size_def utf8_len_def)

lemma encoded_size_ascii: "\<forall>c \<in> set s. c < 128 \<Longrightarrow> encoded_size s = length s"
  by (induction s) (auto simp: encoded_size_def utf8_len_def)

lemma size_limit_at_maximum:
  assumes "strip body \<noteq> []" and "encodable (strip body)"
    and "int (encoded_size body) = MAX_RULE_SIZE cfg"
  shows "append_to_memory_file cfg timestamp None encode_error body file =
           (success, Some (contents file @ utf8 (rendered_entry timestamp body)))"
proof -
  have "int (length body) \<le> int (encoded_size body)"
    using length_le_encoded_size [of body] by simp
  with assms show ?thesis by (simp add: append_to_memory_file_cases)
qed

lemma size_limit_ascii:
  assumes "strip body \<noteq> []" and "\<forall>c \<in> set body. c < 128"
    and "int (encoded_size body) = MAX_RULE_SIZE cfg + 1"
  shows "append_to_memory_file cfg timestamp failure encode_error body file =
           (size_limit_exceeded cfg, file)"
proof -
  from assms(2) have "encoded_size body = length body" by (rule encoded_size_ascii)
  with assms(1,3) show ?thesis by (simp add: append_to_memory_file_cases)
qed

lemma accented_rule_facts:
  "length accented_rule = 10000" "encoded_size accented_rule = 10001"
  "strip accented_rule = accented_rule" "accented_rule \<noteq> []" "encodable accented_rule"
proof -
  show "length accented_rule = 10000" by (simp add: accented_rule_def)
  show "encoded_size accented_rule = 10001"
    by (simp add: accented_rule_def encoded_size_def utf8_len_def sum_list_replicate)
  show ne: "accented_rule \<noteq> []" by (simp add: accented_rule_def)
  have "hd accented_rule = 97"
    by (simp add: accented_rule_def hd_append)
  moreover have "last accented_rule = 233" by (simp add: accented_rule_def)
  ultimately show "strip accented_rule = accented_rule"
    using ne by (simp add: strip_unchanged isspace_def)
  show "encodable accented_rule"
    by (simp add: accented_rule_def encodable_def encodable_char_def surrogate_def
          list_all_iff)
qed

text \<open>
  Claim C3. The claim has the limit on the encoded byte length of the raw rule, as the
  source's messages and its documentation have it (\<open>bytes\<close>, \<open>10KB\<close>). The code counts
  code points: \<open>accented_rule\<close> has 10000 code points and is 10001 bytes long when
  encoded, one byte more than the default maximum, and \<open>append_to_memory_file\<close> accepts
  it.
\<close>

theorem size_limit_counts_code_points:
  "int (encoded_size accented_rule) = MAX_RULE_SIZE default_config + 1 \<and>
   int (length (utf8 accented_rule)) = MAX_RULE_SIZE default_config + 1 \<and>
   append_to_memory_file default_config timestamp None encode_error accented_rule file =
     (success, Some (contents file @ utf8 (rendered_entry timestamp accented_rule))) \<and>
   success \<noteq> size_limit_exceeded default_config"
  using results_distinct(2) [of default_config]
  by (simp add: append_to_memory_file_cases accented_rule_facts default_config_def length_utf8)

subsection \<open>C7: the file after an error\<close>

text \<open>
  Claim C7 says that the file is what it was whenever \<open>append_to_memory_file\<close> returns
  an error. The write and the flush are inside the \<open>try\<close> block, and so are the unlocking
  and the closing after them: when the flush raises after three bytes of the entry have
  reached a full disk, the call returns the error of the \<open>except\<close> clause and the file
  has grown by those three bytes.
\<close>

theorem partial_write_counterexample:
  "append_to_memory_file default_config ''2024-05-01T12:00:00.000250''
     (Some (Write_fails 3 disk_full)) codec_error (py ''x'') initial_file =
     (io_failure disk_full, Some (contents initial_file @ utf8 (py ''\<newline>- ''))) \<and>
   Some (contents initial_file @ utf8 (py ''\<newline>- '')) \<noteq> initial_file"
proof -
  have "take 3 (utf8 (rendered_entry ''2024-05-01T12:00:00.000250'' (py ''x'')))
          = utf8 (py ''\<newline>- '')"
    by (simp add: rendered_entry_def strip_examples)
       (simp add: utf8_def utf8_char_def py_def LF_def)
  moreover have "utf8 (py ''\<newline>- '') \<noteq> []"
    by (simp add: utf8_def utf8_char_def py_def)
  ultimately show ?thesis
    by (simp add: append_to_memory_file_cases strip_examples length_examples
          default_config_def initial_file_eq contents_def)
qed

text \<open>
  Claim C7, amended. Whenever \<open>append_to_memory_file\<close> returns an error: if the error is
  the validation error or the size error, or \<open>open\<close> is what failed, the file is exactly
  what it was before the call (both checks are made before the file is opened); in every
  case the bytes that were in the file are still there, unaltered, and what follows them
  is a prefix of the bytes of the encoded entry: empty, the whole entry, or a part of it
  that may end inside a character.
\<close>

theorem append_error_effect:
  assumes call:
      "append_to_memory_file cfg timestamp failure encode_error body file = (result, file')"
    and err: "result \<noteq> success"
  shows "(result = validation_error \<or> result = size_limit_exceeded cfg \<or>
          (\<exists>e. failure = Some (Open_fails e)) \<longrightarrow> file' = file) \<and>
         (\<exists>k. contents file' = contents file @ take k (utf8 (rendered_entry timestamp body)))"
proof -
  have unchanged: "result = validation_error \<or> result = size_limit_exceeded cfg \<or>
          (\<exists>e. failure = Some (Open_fails e)) \<longrightarrow> file' = file"
    using call err results_distinct
    by (auto simp: append_to_memory_file_cases
          split: if_splits option.splits write_failure.splits)
  have "contents file' = contents file @ take 0 (utf8 (rendered_entry timestamp body)) \<or>
        (\<exists>k. contents file' = contents file @ take k (utf8 (rendered_entry timestamp body))) \<or>
        contents file' = contents file @
          take (length (utf8 (rendered_entry timestamp body)))
            (utf8 (rendered_entry timestamp body))"
    using call err
    by (auto simp: append_to_memory_file_cases contents_def
          split: if_splits option.splits write_failure.splits)
  then have "\<exists>k. contents file' = contents file @ take k (utf8 (rendered_entry timestamp body))"
    by blast
  with unchanged show ?thesis by blast
qed

text \<open>
  The witness is a write that fails after 36 bytes of an entry of 37: the file ends with
  the first of the two bytes of the entry's last character.
\<close>

theorem append_error_effect_witness:
  "append_to_memory_file default_config ''2024-05-01T12:00:00.000250''
     (Some (Write_fails 36 disk_full)) codec_error cafe_rule initial_file =
     (io_failure disk_full,
      Some (contents initial_file @ utf8 (py ''\<newline>- [2024-05-01T12:00:00.000250] caf'') @ [195])) \<and>
   io_failure disk_full \<noteq> success \<and>
   contents initial_file @ utf8 (py ''\<newline>- [2024-05-01T12:00:00.000250] caf'') @ [195] =
     contents initial_file @
       take 36 (utf8 (rendered_entry ''2024-05-01T12:00:00.000250'' cafe_rule)) \<and>
   utf8_decode (utf8 (py ''\<newline>- [2024-05-01T12:00:00.000250] caf'') @ [195]) = None"
proof -
  let ?torn = "utf8 (py ''\<newline>- [2024-05-01T12:00:00.000250] caf'') @ [195]"
  have ne: "io_failure disk_full \<noteq> success" by (rule results_distinct)
  have torn: "take 36 (utf8 (rendered_entry ''2024-05-01T12:00:00.000250'' cafe_rule)) = ?torn"
    by (simp add: rendered_entry_def strip_examples)
       (simp add: utf8_def utf8_char_def py_def LF_def cafe_rule_def)
  have call: "append_to_memory_file default_config ''2024-05-01T12:00:00.000250''
      (Some (Write_fails 36 disk_full)) codec_error cafe_rule initial_file =
      (io_failure disk_full,
       snd (append_to_memory_file default_config ''2024-05-01T12:00:00.000250''
         (Some (Write_fails 36 disk_full)) codec_error cafe_rule initial_file))"
    by (simp add: append_to_memory_file_cases strip_examples length_examples
          encodable_examples default_config_def)
  have after: "snd (append_to_memory_file default_config ''2024-05-01T12:00:00.000250''
         (Some (Write_fails 36 disk_full)) codec_error cafe_rule initial_file) =
       Some (contents initial_file @ ?torn)"
    by (simp add: append_to_memory_file_cases strip_examples length_examples
          encodable_examples default_config_def torn)
  have undecodable: "utf8_decode ?torn = None"
    using utf8_decode_utf8 [of "py ''\<newline>- [2024-05-01T12:00:00.000250] caf''" "[195]"]
    by simp
  from append_error_effect [OF call ne] call ne after torn undecodable
  show ?thesis by simp
qed

subsection \<open>C8: empty rules\<close>

text \<open>
  Claim C8. A rule that is empty once stripped of its surrounding white space is rejected
  with the validation error, whatever its length (the emptiness check comes before the
  size check), whatever the environment, and the file is not touched; the validation
  error is not the size error. The rule \<open>x\<close> is accepted when the size limit is at least
  one and no call of the operating system fails.
\<close>

theorem empty_rule_rejected:
  assumes blank: "strip body = []" and room: "1 \<le> MAX_RULE_SIZE cfg"
  shows "append_to_memory_file cfg timestamp failure encode_error body file =
           (validation_error, file) \<and>
         validation_error \<noteq> size_limit_exceeded cfg \<and>
         append_to_memory_file cfg timestamp None encode_error (py ''x'') file =
           (success, Some (contents file @ utf8 (rendered_entry timestamp (py ''x''))))"
  using blank room
  by (simp add: append_to_memory_file_cases results_distinct strip_examples length_examples)

theorem empty_rule_rejected_witness:
  "strip blank_rule = [] \<and> 1 \<le> MAX_RULE_SIZE small_limit \<and>
   MAX_RULE_SIZE small_limit < int (length blank_rule) \<and>
   append_to_memory_file small_limit ''2024-05-01T12:00:00.000250'' None codec_error blank_rule
     initial_file = (validation_error, initial_file) \<and>
   fst (append_to_memory_file small_limit ''2024-05-01T12:00:00.000250'' None codec_error
     (py ''x'') initial_file) = success"
proof -
  have blank: "strip blank_rule = []"
    by (simp add: blank_rule_def strip_def py_def isspace_def LF_def)
  have room: "1 \<le> MAX_RULE_SIZE small_limit" by (simp add: small_limit_def)
  have long: "MAX_RULE_SIZE small_limit < int (length blank_rule)"
    by (simp add: small_limit_def blank_rule_def py_def)
  from empty_rule_rejected [OF blank room] blank room long show ?thesis by simp
qed

subsection \<open>C9: statistics\<close>

text \<open>
  Claim C9 says that on a failure other than a missing file the partial result carries a
  truthful existence flag. The last \<open>except\<close> clause of \<open>get_file_stats\<close> returns
  \<open>exists = False\<close> whatever the file: for the existing file \<open>initial_file\<close> that cannot
  be opened for lack of permission, the flag is \<open>False\<close>.
\<close>

theorem stats_exists_counterexample:
  "exists_file initial_file \<and>
   map_of (get_file_stats (Some permission_denied) codec_error (py ''2024-05-01T09:00:00.000001'')
     initial_file) ''exists''
     = Some (PyBool False)"
  by (simp add: get_file_stats_def stat_file_def initial_file_eq exists_file_def)

text \<open>
  Claim C9, amended. \<open>get_file_stats\<close> returns a dictionary in every case and raises
  nothing: for a missing file \<open>exists = False\<close>, \<open>size_bytes = 0\<close>, \<open>line_count = 0\<close> and
  \<open>modified = None\<close>; on any other failure a dictionary of two entries, \<open>exists = False\<close>
  (whether the file exists or not) and the error's text; otherwise \<open>exists = True\<close> with
  the size, the line count and the modification time.
\<close>

theorem stats_never_raise:
  "get_file_stats None decode_error modified None =
     [(''exists'', PyBool False), (''size_bytes'', PyInt 0), (''line_count'', PyInt 0),
      (''modified'', PyNone)] \<and>
   (\<forall>e file. get_file_stats (Some e) decode_error modified file =
      [(''exists'', PyBool False), (''error'', PyStr e)]) \<and>
   (\<forall>stored. get_file_stats None decode_error modified (Some stored) =
      (case utf8_decode stored of
         Some content \<Rightarrow>
           [(''exists'', PyBool True), (''size_bytes'', PyInt (int (length stored))),
            (''line_count'', PyInt (int (line_count (universal_newlines content)))),
            (''modified'', PyStr modified)]
       | None \<Rightarrow> [(''exists'', PyBool False), (''error'', PyStr decode_error)]))"
  by (simp add: get_file_stats_def stat_file_def split: option.splits)

subsection \<open>C10: reading a missing file\<close>

text \<open>
  Claim C10. \<open>read_memory_file\<close> returns a string in every case and raises nothing. For
  a missing file the string is \<open>Error: Memory file not found.\<close>, and an existing file
  whose content is that very text is read as the same value: the two states cannot be
  told apart by the value returned. Any other failure is returned as a string as well.
\<close>

theorem read_not_found_in_band:
  "read_memory_file None decode_error None = not_found \<and>
   read_memory_file None decode_error (Some (utf8 not_found)) =
     read_memory_file None decode_error None \<and>
   (\<forall>e file. read_memory_file (Some e) decode_error file = py ''Error reading file: '' @ e)"
proof -
  have "CR \<notin> set not_found" by (simp add: not_found_def py_def CR_def)
  then have "universal_newlines not_found = not_found"
    unfolding universal_newlines_def by (rule translate_newlines_no_CR)
  moreover have "utf8_decode (utf8 not_found) = Some not_found"
    by (rule utf8_decode_encoded) (simp add: not_found_def)
  ultimately show ?thesis
    by (simp add: read_memory_file_def read_file_def) (simp add: not_found_def)
qed

end
